theory Spec2Isabelle
  imports Main "HOL-Library.Word"
begin

section \<open>The runtime bridge of \<^verbatim>\<open>java.lang.Runtime\<close> (\<^verbatim>\<open>libjava/Runtime.c\<close>)\<close>

text \<open>
  \<^verbatim>\<open>Runtime.c\<close> holds ten JNI entry points and nothing else: no global, no static
  variable, no helper function. Every body is one call of a \<^verbatim>\<open>JVM_*\<close> function of the
  execution engine. (The specification speaks of nine operations; its table lists the
  same ten. Everything below covers all ten.)

  The engine is not part of the file. It is a parameter of the model: a record of its
  services over an arbitrary engine state \<open>'s\<close>. A C function that returns hands back a
  result and the state it leaves behind; one that never returns is \<open>None\<close>.
\<close>

subsection \<open>JNI types\<close>

type_synonym jint = "32 word"
type_synonym jlong = "64 word"

text \<open>Handles are opaque pointers; the null pointer is 0.\<close>

type_synonym jobject = nat
type_synonym jobjectArray = jobject
type_synonym JNIEnv = nat

abbreviation (input) NULL :: jobject where
  "NULL \<equiv> 0"

subsection \<open>The engine's interface\<close>

text \<open>
  The failures an engine can signal (the specification's taxonomy). In JNI a failure is
  an exception left pending on the calling thread: the C function still returns, and the
  caller finds the exception with \<^verbatim>\<open>ExceptionOccurred\<close>.
\<close>

datatype engine_error = InvalidHandle | UnsupportedOperation

text \<open>
  The services \<^verbatim>\<open>Runtime.c\<close> calls. Their declarations are in \<^verbatim>\<open>jvm.h\<close>, which is
  not among the sources: each service is taken with the parameters the call site passes
  and with the result type of the entry point that returns its value without a cast.
  \<open>ExceptionOccurred\<close> reads the pending failure of the calling thread out of the
  engine state.
\<close>

record 's jvm =
  ExceptionOccurred :: "'s \<Rightarrow> engine_error option"
  JVM_FreeMemory :: "'s \<Rightarrow> (jlong \<times> 's) option"
  JVM_TotalMemory :: "'s \<Rightarrow> (jlong \<times> 's) option"
  JVM_MaxMemory :: "'s \<Rightarrow> (jlong \<times> 's) option"
  JVM_GC :: "'s \<Rightarrow> (unit \<times> 's) option"
  JVM_ActiveProcessorCount :: "'s \<Rightarrow> (jint \<times> 's) option"
  JVM_SizeOf :: "jobject \<Rightarrow> 's \<Rightarrow> (jlong \<times> 's) option"
  JVM_GetReferencedObjects :: "JNIEnv \<Rightarrow> jobject \<Rightarrow> jobjectArray \<Rightarrow> 's \<Rightarrow> (jint \<times> 's) option"
  JVM_AddressOf :: "jobject \<Rightarrow> 's \<Rightarrow> (jlong \<times> 's) option"
  JVM_FieldOffsetOf :: "jobject \<Rightarrow> 's \<Rightarrow> (jlong \<times> 's) option"
  JVM_FieldSizeOf :: "jobject \<Rightarrow> 's \<Rightarrow> (jlong \<times> 's) option"

subsection \<open>The entry points\<close>

text \<open>
  Each definition is the body of the C function of the same name; \<open>env\<close> and \<open>this\<close>
  are the \<^verbatim>\<open>JNIEnv *\<close> and the receiver every JNI instance method is given.
\<close>

definition Java_java_lang_Runtime_freeMemory ::
  "'s jvm \<Rightarrow> JNIEnv \<Rightarrow> jobject \<Rightarrow> 's \<Rightarrow> (jlong \<times> 's) option" where
  "Java_java_lang_Runtime_freeMemory vm env this s = JVM_FreeMemory vm s"

definition Java_java_lang_Runtime_totalMemory ::
  "'s jvm \<Rightarrow> JNIEnv \<Rightarrow> jobject \<Rightarrow> 's \<Rightarrow> (jlong \<times> 's) option" where
  "Java_java_lang_Runtime_totalMemory vm env this s = JVM_TotalMemory vm s"

definition Java_java_lang_Runtime_maxMemory ::
  "'s jvm \<Rightarrow> JNIEnv \<Rightarrow> jobject \<Rightarrow> 's \<Rightarrow> (jlong \<times> 's) option" where
  "Java_java_lang_Runtime_maxMemory vm env this s = JVM_MaxMemory vm s"

text \<open>\<open>gc\<close> is \<^verbatim>\<open>void\<close>: it calls the service and falls off its end.\<close>

definition Java_java_lang_Runtime_gc ::
  "'s jvm \<Rightarrow> JNIEnv \<Rightarrow> jobject \<Rightarrow> 's \<Rightarrow> (unit \<times> 's) option" where
  "Java_java_lang_Runtime_gc vm env this s =
     (case JVM_GC vm s of None \<Rightarrow> None | Some (u, s') \<Rightarrow> Some ((), s'))"

definition Java_java_lang_Runtime_availableProcessors ::
  "'s jvm \<Rightarrow> JNIEnv \<Rightarrow> jobject \<Rightarrow> 's \<Rightarrow> (jint \<times> 's) option" where
  "Java_java_lang_Runtime_availableProcessors vm env this s = JVM_ActiveProcessorCount vm s"

definition Java_java_lang_Runtime_sizeOf0 ::
  "'s jvm \<Rightarrow> JNIEnv \<Rightarrow> jobject \<Rightarrow> jobject \<Rightarrow> 's \<Rightarrow> (jlong \<times> 's) option" where
  "Java_java_lang_Runtime_sizeOf0 vm env this obj s = JVM_SizeOf vm obj s"

definition Java_java_lang_Runtime_getReferences0 ::
  "'s jvm \<Rightarrow> JNIEnv \<Rightarrow> jobject \<Rightarrow> jobject \<Rightarrow> jobjectArray \<Rightarrow> 's \<Rightarrow> (jint \<times> 's) option" where
  "Java_java_lang_Runtime_getReferences0 vm env this obj ref_buf s =
     JVM_GetReferencedObjects vm env obj ref_buf s"

definition Java_java_lang_Runtime_addressOf0 ::
  "'s jvm \<Rightarrow> JNIEnv \<Rightarrow> jobject \<Rightarrow> jobject \<Rightarrow> 's \<Rightarrow> (jlong \<times> 's) option" where
  "Java_java_lang_Runtime_addressOf0 vm env this field s = JVM_AddressOf vm field s"

definition Java_java_lang_Runtime_fieldOffsetOf0 ::
  "'s jvm \<Rightarrow> JNIEnv \<Rightarrow> jobject \<Rightarrow> jobject \<Rightarrow> 's \<Rightarrow> (jlong \<times> 's) option" where
  "Java_java_lang_Runtime_fieldOffsetOf0 vm env this field s = JVM_FieldOffsetOf vm field s"

definition Java_java_lang_Runtime_fieldSizeOf0 ::
  "'s jvm \<Rightarrow> JNIEnv \<Rightarrow> jobject \<Rightarrow> jobject \<Rightarrow> 's \<Rightarrow> (jlong \<times> 's) option" where
  "Java_java_lang_Runtime_fieldSizeOf0 vm env this field s = JVM_FieldSizeOf vm field s"

subsection \<open>Observing the engine services an entry point invokes\<close>

text \<open>
  One constructor per service, with the arguments of the invocation. \<open>traced vm\<close> is the
  engine \<open>vm\<close> with a log beside its state: each service appends its own invocation to
  the log and otherwise does what \<open>vm\<close> does. An entry point cannot tell \<open>traced vm\<close>
  from \<open>vm\<close> (it is polymorphic in the engine state), so the log of a run is the list of
  the invocations that run made, in order.
\<close>

datatype jvm_call =
    Call_FreeMemory
  | Call_TotalMemory
  | Call_MaxMemory
  | Call_GC
  | Call_ActiveProcessorCount
  | Call_SizeOf jobject
  | Call_GetReferencedObjects JNIEnv jobject jobjectArray
  | Call_AddressOf jobject
  | Call_FieldOffsetOf jobject
  | Call_FieldSizeOf jobject

definition logged ::
  "jvm_call \<Rightarrow> ('s \<Rightarrow> ('a \<times> 's) option) \<Rightarrow> 's \<times> jvm_call list \<Rightarrow> ('a \<times> 's \<times> jvm_call list) option" where
  "logged c service st =
     (case service (fst st) of
        None \<Rightarrow> None
      | Some (r, s') \<Rightarrow> Some (r, (s', snd st @ [c])))"

definition traced :: "'s jvm \<Rightarrow> ('s \<times> jvm_call list) jvm" where
  "traced vm =
     \<lparr> ExceptionOccurred = (\<lambda>st. ExceptionOccurred vm (fst st)),
       JVM_FreeMemory = logged Call_FreeMemory (JVM_FreeMemory vm),
       JVM_TotalMemory = logged Call_TotalMemory (JVM_TotalMemory vm),
       JVM_MaxMemory = logged Call_MaxMemory (JVM_MaxMemory vm),
       JVM_GC = logged Call_GC (JVM_GC vm),
       JVM_ActiveProcessorCount = logged Call_ActiveProcessorCount (JVM_ActiveProcessorCount vm),
       JVM_SizeOf = (\<lambda>obj. logged (Call_SizeOf obj) (JVM_SizeOf vm obj)),
       JVM_GetReferencedObjects =
         (\<lambda>env obj ref_buf.
            logged (Call_GetReferencedObjects env obj ref_buf)
              (JVM_GetReferencedObjects vm env obj ref_buf)),
       JVM_AddressOf = (\<lambda>field. logged (Call_AddressOf field) (JVM_AddressOf vm field)),
       JVM_FieldOffsetOf = (\<lambda>field. logged (Call_FieldOffsetOf field) (JVM_FieldOffsetOf vm field)),
       JVM_FieldSizeOf = (\<lambda>field. logged (Call_FieldSizeOf field) (JVM_FieldSizeOf vm field)) \<rparr>"

subsection \<open>An engine to run the entry points on\<close>

text \<open>
  A fixed engine for the concrete runs below. Its state is the number of queries it has
  answered and the failure pending on the calling thread. It answers every query with
  a fixed value, except that it refuses a null handle with \<open>InvalidHandle\<close>; it takes
  a collection request and collects nothing.
\<close>

type_synonym probe_state = "nat \<times> engine_error option"

definition answer :: "'a \<Rightarrow> probe_state \<Rightarrow> ('a \<times> probe_state) option" where
  "answer r s = Some (r, (Suc (fst s), snd s))"

definition refuse :: "probe_state \<Rightarrow> ('a::zero \<times> probe_state) option" where
  "refuse s = Some (0, (Suc (fst s), Some InvalidHandle))"

definition probe_vm :: "probe_state jvm" where
  "probe_vm =
     \<lparr> ExceptionOccurred = snd,
       JVM_FreeMemory = answer 1024,
       JVM_TotalMemory = answer 4096,
       JVM_MaxMemory = answer 8192,
       JVM_GC = (\<lambda>s. Some ((), s)),
       JVM_ActiveProcessorCount = answer 4,
       JVM_SizeOf = (\<lambda>obj. if obj = NULL then refuse else answer 16),
       JVM_GetReferencedObjects = (\<lambda>env obj ref_buf. if obj = NULL then refuse else answer 3),
       JVM_AddressOf = (\<lambda>field. if field = NULL then refuse else answer 4294967296),
       JVM_FieldOffsetOf = (\<lambda>field. if field = NULL then refuse else answer 12),
       JVM_FieldSizeOf = (\<lambda>field. if field = NULL then refuse else answer 8) \<rparr>"

text \<open>The same engine, except that its collector never comes back.\<close>

definition stalling_vm :: "probe_state jvm" where
  "stalling_vm = probe_vm \<lparr> JVM_GC := (\<lambda>s. None) \<rparr>"

section \<open>The engine as the specification describes it\<close>

text \<open>
  The \<^verbatim>\<open>JVM_*\<close> functions are code of the engine, not of \<^verbatim>\<open>Runtime.c\<close>. What the
  specification promises about values and buffers is decided there. This section
  models those services from the specification's data model and interface
  contract, so that the entry points can be run against them.
\<close>

subsection \<open>Engine state\<close>

text \<open>
  Modelled from the spec: the managed object behind an object handle (section 3),
  as far as the introspection services read it: its shallow size in bytes and the
  objects it directly references, in the order the engine enumerates them.
\<close>

record object_info =
  shallow_size :: jlong
  direct_references :: "jobject list"

text \<open>
  Modelled from the spec: what a field descriptor handle identifies (section 3): the
  raw address of the field's storage, its byte offset in the containing object's layout
  and the byte size of its storage.
\<close>

record field_info =
  storage_address :: jlong
  byte_offset :: jlong
  byte_size :: jlong

text \<open>
  Modelled from the spec: the engine state behind the services (section 3). The pending
  failure of the calling thread; the process memory state (free heap bytes, heap bytes
  currently committed, the most the engine is permitted to commit, \<open>None\<close> when the heap
  is unbounded, and the engine-defined value that stands for "unbounded"); the usable
  logical processors; the collections requested so far; the live objects and field
  descriptors by handle (a handle that is null, stale or never issued is not in the
  map); and the reference output buffers by handle, each a fixed-capacity sequence of
  handle slots.
\<close>

record engine_state =
  pending_error :: "engine_error option"
  free_bytes :: nat
  committed_bytes :: nat
  max_bytes :: "nat option"
  unbounded_sentinel :: jlong
  usable_processors :: nat
  collections_requested :: nat
  live_objects :: "jobject \<rightharpoonup> object_info"
  live_fields :: "jobject \<rightharpoonup> field_info"
  reference_buffers :: "jobjectArray \<rightharpoonup> jobject list"

subsection \<open>Engine services\<close>

text \<open>
  Modelled from the spec: how a service fails (section 7). The failure is left pending
  for the caller, nothing else in the engine changes, and the C function returns 0.
\<close>

definition signal :: "engine_error \<Rightarrow> engine_state \<Rightarrow> ('a::zero \<times> engine_state) option" where
  "signal e s = Some (0, s \<lparr> pending_error := Some e \<rparr>)"

text \<open>
  Modelled from the spec: the three memory-query services (sections 3, 4.1, 6). Each is
  a pure read of one scalar of the process memory state; \<open>maxMemory\<close> answers the
  sentinel when the heap is unbounded.
\<close>

definition spec_FreeMemory :: "engine_state \<Rightarrow> (jlong \<times> engine_state) option" where
  "spec_FreeMemory s = Some (of_nat (free_bytes s), s)"

text \<open>Modelled from the spec: the committed heap bytes, a pure read (section 4.1).\<close>

definition spec_TotalMemory :: "engine_state \<Rightarrow> (jlong \<times> engine_state) option" where
  "spec_TotalMemory s = Some (of_nat (committed_bytes s), s)"

text \<open>
  Modelled from the spec: the maximum heap bytes, or the engine-defined sentinel meaning
  "unbounded"; a pure read (section 4.1).
\<close>

definition spec_MaxMemory :: "engine_state \<Rightarrow> (jlong \<times> engine_state) option" where
  "spec_MaxMemory s =
     Some (case max_bytes s of None \<Rightarrow> unbounded_sentinel s | Some m \<Rightarrow> of_nat m, s)"

text \<open>
  Modelled from the spec: the collection request (sections 4.1, 6): no parameter, no
  result, fire and forget. The engine notes the request; whether, when and how
  thoroughly it collects is its own business, and this model collects nothing.
\<close>

definition spec_GC :: "engine_state \<Rightarrow> (unit \<times> engine_state) option" where
  "spec_GC s = Some ((), s \<lparr> collections_requested := Suc (collections_requested s) \<rparr>)"

text \<open>
  Modelled from the spec: the processor-count service (section 4.1): the engine's
  current view of the usable logical processors.
\<close>

definition spec_ActiveProcessorCount :: "engine_state \<Rightarrow> (jint \<times> engine_state) option" where
  "spec_ActiveProcessorCount s = Some (of_nat (usable_processors s), s)"

text \<open>
  Modelled from the spec: \<open>sizeOf\<close> (sections 4.1, 7): the shallow size of the object
  behind the handle; \<open>InvalidHandle\<close> when the handle is null or not live.
\<close>

definition spec_SizeOf :: "jobject \<Rightarrow> engine_state \<Rightarrow> (jlong \<times> engine_state) option" where
  "spec_SizeOf obj s =
     (if obj = NULL then signal InvalidHandle s
      else case live_objects s obj of
             None \<Rightarrow> signal InvalidHandle s
           | Some info \<Rightarrow> Some (shallow_size info, s))"

text \<open>
  Modelled from the spec: \<open>getReferencedObjects\<close> (sections 3, 4.1, 7). With \<open>k\<close>
  references found and a buffer of capacity \<open>c\<close>, the service writes the first
  \<open>min k c\<close> of them into the first slots of the buffer, leaves the other slots as they
  were, and returns \<open>k\<close> as a \<^verbatim>\<open>jint\<close>. A null or dead object handle, or a null or dead
  buffer handle, is \<open>InvalidHandle\<close>, and then nothing is written.
\<close>

definition spec_GetReferencedObjects ::
  "JNIEnv \<Rightarrow> jobject \<Rightarrow> jobjectArray \<Rightarrow> engine_state \<Rightarrow> (jint \<times> engine_state) option" where
  "spec_GetReferencedObjects env obj ref_buf s =
     (if obj = NULL then signal InvalidHandle s
      else case live_objects s obj of
             None \<Rightarrow> signal InvalidHandle s
           | Some info \<Rightarrow>
               (if ref_buf = NULL then signal InvalidHandle s
                else case reference_buffers s ref_buf of
                       None \<Rightarrow> signal InvalidHandle s
                     | Some slots \<Rightarrow>
                         (let refs = direct_references info;
                              n = min (length refs) (length slots)
                          in Some (of_nat (length refs),
                                   s \<lparr> reference_buffers :=
                                         (reference_buffers s)
                                           (ref_buf \<mapsto> take n refs @ drop n slots) \<rparr>))))"

text \<open>
  Modelled from the spec: \<open>addressOf\<close> (sections 4.1, 7): the raw address of the
  field's storage; \<open>InvalidHandle\<close> when the descriptor handle is null or not live.
\<close>

definition spec_AddressOf :: "jobject \<Rightarrow> engine_state \<Rightarrow> (jlong \<times> engine_state) option" where
  "spec_AddressOf field s =
     (if field = NULL then signal InvalidHandle s
      else case live_fields s field of
             None \<Rightarrow> signal InvalidHandle s
           | Some info \<Rightarrow> Some (storage_address info, s))"

text \<open>
  Modelled from the spec: \<open>fieldOffsetOf\<close> (sections 4.1, 7): the byte offset of the
  field; \<open>InvalidHandle\<close> when the descriptor handle is null or not live.
\<close>

definition spec_FieldOffsetOf :: "jobject \<Rightarrow> engine_state \<Rightarrow> (jlong \<times> engine_state) option" where
  "spec_FieldOffsetOf field s =
     (if field = NULL then signal InvalidHandle s
      else case live_fields s field of
             None \<Rightarrow> signal InvalidHandle s
           | Some info \<Rightarrow> Some (byte_offset info, s))"

text \<open>
  Modelled from the spec: \<open>fieldSizeOf\<close> (sections 4.1, 7): the byte size of the
  field's storage; \<open>InvalidHandle\<close> when the descriptor handle is null or not live.
\<close>

definition spec_FieldSizeOf :: "jobject \<Rightarrow> engine_state \<Rightarrow> (jlong \<times> engine_state) option" where
  "spec_FieldSizeOf field s =
     (if field = NULL then signal InvalidHandle s
      else case live_fields s field of
             None \<Rightarrow> signal InvalidHandle s
           | Some info \<Rightarrow> Some (byte_size info, s))"

text \<open>Modelled from the spec: the engine, one service per operation (section 6).\<close>

definition spec_vm :: "engine_state jvm" where
  "spec_vm =
     \<lparr> ExceptionOccurred = pending_error,
       JVM_FreeMemory = spec_FreeMemory,
       JVM_TotalMemory = spec_TotalMemory,
       JVM_MaxMemory = spec_MaxMemory,
       JVM_GC = spec_GC,
       JVM_ActiveProcessorCount = spec_ActiveProcessorCount,
       JVM_SizeOf = spec_SizeOf,
       JVM_GetReferencedObjects = spec_GetReferencedObjects,
       JVM_AddressOf = spec_AddressOf,
       JVM_FieldOffsetOf = spec_FieldOffsetOf,
       JVM_FieldSizeOf = spec_FieldSizeOf \<rparr>"

text \<open>
  Modelled from the spec: the outcome "the call failed with \<open>e\<close> and did nothing else"
  (section 8): the call returned, \<open>e\<close> is pending, and but for the pending failure the
  engine state is the one before the call.
\<close>

definition failed_with :: "engine_error \<Rightarrow> engine_state \<Rightarrow> ('a \<times> engine_state) option \<Rightarrow> bool" where
  "failed_with e s outcome =
     (case outcome of
        None \<Rightarrow> False
      | Some (r, s') \<Rightarrow> pending_error s' = Some e \<and> s' = s \<lparr> pending_error := Some e \<rparr>)"

subsection \<open>Engine states to run the model on\<close>

text \<open>
  A small heap: object 11 references objects 12, 13 and 12 again, objects 12 and 13
  reference nothing; handle 9 is a descriptor of a field of object 11; handle 5 is a
  buffer of two slots, handle 6 one of four, both holding handle 7 in every slot. No
  other handle is live.
\<close>

definition demo_state :: engine_state where
  "demo_state =
     \<lparr> pending_error = None,
       free_bytes = 3000,
       committed_bytes = 4096,
       max_bytes = Some 8192,
       unbounded_sentinel = 9223372036854775807,
       usable_processors = 4,
       collections_requested = 0,
       live_objects =
         [11 \<mapsto> \<lparr> shallow_size = 24, direct_references = [12, 13, 12] \<rparr>,
          12 \<mapsto> \<lparr> shallow_size = 16, direct_references = [] \<rparr>,
          13 \<mapsto> \<lparr> shallow_size = 16, direct_references = [] \<rparr>],
       live_fields = [9 \<mapsto> \<lparr> storage_address = 4096, byte_offset = 12, byte_size = 4 \<rparr>],
       reference_buffers = [5 \<mapsto> [7, 7], 6 \<mapsto> [7, 7, 7, 7]] \<rparr>"

section \<open>Evaluation rules\<close>

lemmas entry_point_defs =
  Java_java_lang_Runtime_freeMemory_def Java_java_lang_Runtime_totalMemory_def
  Java_java_lang_Runtime_maxMemory_def Java_java_lang_Runtime_gc_def
  Java_java_lang_Runtime_availableProcessors_def Java_java_lang_Runtime_sizeOf0_def
  Java_java_lang_Runtime_getReferences0_def Java_java_lang_Runtime_addressOf0_def
  Java_java_lang_Runtime_fieldOffsetOf0_def Java_java_lang_Runtime_fieldSizeOf0_def

lemma traced_simps:
  "ExceptionOccurred (traced vm) st = ExceptionOccurred vm (fst st)"
  "JVM_FreeMemory (traced vm) = logged Call_FreeMemory (JVM_FreeMemory vm)"
  "JVM_TotalMemory (traced vm) = logged Call_TotalMemory (JVM_TotalMemory vm)"
  "JVM_MaxMemory (traced vm) = logged Call_MaxMemory (JVM_MaxMemory vm)"
  "JVM_GC (traced vm) = logged Call_GC (JVM_GC vm)"
  "JVM_ActiveProcessorCount (traced vm) =
     logged Call_ActiveProcessorCount (JVM_ActiveProcessorCount vm)"
  "JVM_SizeOf (traced vm) obj = logged (Call_SizeOf obj) (JVM_SizeOf vm obj)"
  "JVM_GetReferencedObjects (traced vm) env obj ref_buf =
     logged (Call_GetReferencedObjects env obj ref_buf)
       (JVM_GetReferencedObjects vm env obj ref_buf)"
  "JVM_AddressOf (traced vm) field = logged (Call_AddressOf field) (JVM_AddressOf vm field)"
  "JVM_FieldOffsetOf (traced vm) field =
     logged (Call_FieldOffsetOf field) (JVM_FieldOffsetOf vm field)"
  "JVM_FieldSizeOf (traced vm) field =
     logged (Call_FieldSizeOf field) (JVM_FieldSizeOf vm field)"
  by (simp_all add: traced_def)

lemma probe_vm_simps:
  "ExceptionOccurred probe_vm s = snd s"
  "JVM_FreeMemory probe_vm s = Some (1024, (Suc (fst s), snd s))"
  "JVM_TotalMemory probe_vm s = Some (4096, (Suc (fst s), snd s))"
  "JVM_MaxMemory probe_vm s = Some (8192, (Suc (fst s), snd s))"
  "JVM_GC probe_vm s = Some ((), s)"
  "JVM_ActiveProcessorCount probe_vm s = Some (4, (Suc (fst s), snd s))"
  "JVM_SizeOf probe_vm obj s =
     (if obj = NULL then Some (0, (Suc (fst s), Some InvalidHandle))
      else Some (16, (Suc (fst s), snd s)))"
  "JVM_GetReferencedObjects probe_vm env obj ref_buf s =
     (if obj = NULL then Some (0, (Suc (fst s), Some InvalidHandle))
      else Some (3, (Suc (fst s), snd s)))"
  "JVM_AddressOf probe_vm field s =
     (if field = NULL then Some (0, (Suc (fst s), Some InvalidHandle))
      else Some (4294967296, (Suc (fst s), snd s)))"
  "JVM_FieldOffsetOf probe_vm field s =
     (if field = NULL then Some (0, (Suc (fst s), Some InvalidHandle))
      else Some (12, (Suc (fst s), snd s)))"
  "JVM_FieldSizeOf probe_vm field s =
     (if field = NULL then Some (0, (Suc (fst s), Some InvalidHandle))
      else Some (8, (Suc (fst s), snd s)))"
  by (simp_all add: probe_vm_def answer_def refuse_def)

lemma stalling_vm_simps:
  "JVM_FreeMemory stalling_vm = JVM_FreeMemory probe_vm"
  "JVM_TotalMemory stalling_vm = JVM_TotalMemory probe_vm"
  "JVM_MaxMemory stalling_vm = JVM_MaxMemory probe_vm"
  "JVM_GC stalling_vm s = None"
  "JVM_ActiveProcessorCount stalling_vm = JVM_ActiveProcessorCount probe_vm"
  "JVM_SizeOf stalling_vm = JVM_SizeOf probe_vm"
  "JVM_GetReferencedObjects stalling_vm = JVM_GetReferencedObjects probe_vm"
  "JVM_AddressOf stalling_vm = JVM_AddressOf probe_vm"
  "JVM_FieldOffsetOf stalling_vm = JVM_FieldOffsetOf probe_vm"
  "JVM_FieldSizeOf stalling_vm = JVM_FieldSizeOf probe_vm"
  by (simp_all add: stalling_vm_def)

lemma spec_vm_simps:
  "ExceptionOccurred spec_vm = pending_error"
  "JVM_FreeMemory spec_vm = spec_FreeMemory"
  "JVM_TotalMemory spec_vm = spec_TotalMemory"
  "JVM_MaxMemory spec_vm = spec_MaxMemory"
  "JVM_GC spec_vm = spec_GC"
  "JVM_ActiveProcessorCount spec_vm = spec_ActiveProcessorCount"
  "JVM_SizeOf spec_vm = spec_SizeOf"
  "JVM_GetReferencedObjects spec_vm = spec_GetReferencedObjects"
  "JVM_AddressOf spec_vm = spec_AddressOf"
  "JVM_FieldOffsetOf spec_vm = spec_FieldOffsetOf"
  "JVM_FieldSizeOf spec_vm = spec_FieldSizeOf"
  by (simp_all add: spec_vm_def)

lemma demo_state_simps:
  "pending_error demo_state = None"
  "free_bytes demo_state = 3000"
  "committed_bytes demo_state = 4096"
  "max_bytes demo_state = Some 8192"
  "unbounded_sentinel demo_state = 9223372036854775807"
  "live_objects demo_state 11 = Some \<lparr> shallow_size = 24, direct_references = [12, 13, 12] \<rparr>"
  "live_objects demo_state 12 = Some \<lparr> shallow_size = 16, direct_references = [] \<rparr>"
  "live_fields demo_state 44 = None"
  "reference_buffers demo_state 5 = Some [7, 7]"
  "reference_buffers demo_state 6 = Some [7, 7, 7, 7]"
  by (simp_all add: demo_state_def)

text \<open>A count below \<open>2 ^ 31\<close> is the signed value of the \<^verbatim>\<open>jint\<close> that carries it.\<close>

lemma nat_fits_jint: "k < 2 ^ 31 \<Longrightarrow> sint (of_nat k :: jint) = int k"
  by (simp add: signed_of_nat signed_take_bit_int_eq_self)

text \<open>Storing into a buffer what it already holds changes nothing.\<close>

lemma buffer_write_nothing:
  "reference_buffers s b = Some slots \<Longrightarrow>
   s \<lparr> reference_buffers := (reference_buffers s)(b \<mapsto> slots) \<rparr> = s"
  by (simp add: map_upd_triv)

section \<open>Properties of the entry points, for every engine\<close>

text \<open>
  C1. A call of any of the operations (all ten entry points) invokes one engine
  service, once (the log grows by exactly that invocation, carrying the arguments of the
  call), and hands back what the service handed back: the same result, no other value in
  its place, and the engine state the service left, so that a failure the engine left
  pending there is the failure the caller finds. Where the service does not return,
  neither does the operation: nothing is retried and nothing is substituted.
\<close>

theorem bridge_invokes_one_service_once:
  "Java_java_lang_Runtime_freeMemory (traced vm) env this (s, tr) =
     map_option (\<lambda>(r, s'). (r, (s', tr @ [Call_FreeMemory]))) (JVM_FreeMemory vm s)
   \<and> Java_java_lang_Runtime_totalMemory (traced vm) env this (s, tr) =
     map_option (\<lambda>(r, s'). (r, (s', tr @ [Call_TotalMemory]))) (JVM_TotalMemory vm s)
   \<and> Java_java_lang_Runtime_maxMemory (traced vm) env this (s, tr) =
     map_option (\<lambda>(r, s'). (r, (s', tr @ [Call_MaxMemory]))) (JVM_MaxMemory vm s)
   \<and> Java_java_lang_Runtime_gc (traced vm) env this (s, tr) =
     map_option (\<lambda>(r, s'). (r, (s', tr @ [Call_GC]))) (JVM_GC vm s)
   \<and> Java_java_lang_Runtime_availableProcessors (traced vm) env this (s, tr) =
     map_option (\<lambda>(r, s'). (r, (s', tr @ [Call_ActiveProcessorCount])))
       (JVM_ActiveProcessorCount vm s)
   \<and> Java_java_lang_Runtime_sizeOf0 (traced vm) env this obj (s, tr) =
     map_option (\<lambda>(r, s'). (r, (s', tr @ [Call_SizeOf obj]))) (JVM_SizeOf vm obj s)
   \<and> Java_java_lang_Runtime_getReferences0 (traced vm) env this obj ref_buf (s, tr) =
     map_option (\<lambda>(r, s'). (r, (s', tr @ [Call_GetReferencedObjects env obj ref_buf])))
       (JVM_GetReferencedObjects vm env obj ref_buf s)
   \<and> Java_java_lang_Runtime_addressOf0 (traced vm) env this field (s, tr) =
     map_option (\<lambda>(r, s'). (r, (s', tr @ [Call_AddressOf field]))) (JVM_AddressOf vm field s)
   \<and> Java_java_lang_Runtime_fieldOffsetOf0 (traced vm) env this field (s, tr) =
     map_option (\<lambda>(r, s'). (r, (s', tr @ [Call_FieldOffsetOf field])))
       (JVM_FieldOffsetOf vm field s)
   \<and> Java_java_lang_Runtime_fieldSizeOf0 (traced vm) env this field (s, tr) =
     map_option (\<lambda>(r, s'). (r, (s', tr @ [Call_FieldSizeOf field])))
       (JVM_FieldSizeOf vm field s)"
  by (simp add: entry_point_defs traced_def logged_def split: option.splits)

text \<open>
  Each of the ten entry points run once on the probing engine, from an empty log;
  \<open>sizeOf0\<close> once more with the null handle, which the engine refuses: the caller
  finds the engine's \<open>InvalidHandle\<close> pending; and \<open>gc\<close> once more on the engine whose
  collector never comes back.
\<close>

theorem bridge_invokes_one_service_once_witness:
  "Java_java_lang_Runtime_freeMemory (traced probe_vm) 7 8 ((0, None), [])
     = Some (1024, ((1, None), [Call_FreeMemory]))
   \<and> Java_java_lang_Runtime_totalMemory (traced probe_vm) 7 8 ((0, None), [])
     = Some (4096, ((1, None), [Call_TotalMemory]))
   \<and> Java_java_lang_Runtime_maxMemory (traced probe_vm) 7 8 ((0, None), [])
     = Some (8192, ((1, None), [Call_MaxMemory]))
   \<and> Java_java_lang_Runtime_gc (traced probe_vm) 7 8 ((0, None), [])
     = Some ((), ((0, None), [Call_GC]))
   \<and> Java_java_lang_Runtime_availableProcessors (traced probe_vm) 7 8 ((0, None), [])
     = Some (4, ((1, None), [Call_ActiveProcessorCount]))
   \<and> Java_java_lang_Runtime_sizeOf0 (traced probe_vm) 7 8 11 ((0, None), [])
     = Some (16, ((1, None), [Call_SizeOf 11]))
   \<and> Java_java_lang_Runtime_getReferences0 (traced probe_vm) 7 8 11 5 ((0, None), [])
     = Some (3, ((1, None), [Call_GetReferencedObjects 7 11 5]))
   \<and> Java_java_lang_Runtime_addressOf0 (traced probe_vm) 7 8 9 ((0, None), [])
     = Some (4294967296, ((1, None), [Call_AddressOf 9]))
   \<and> Java_java_lang_Runtime_fieldOffsetOf0 (traced probe_vm) 7 8 9 ((0, None), [])
     = Some (12, ((1, None), [Call_FieldOffsetOf 9]))
   \<and> Java_java_lang_Runtime_fieldSizeOf0 (traced probe_vm) 7 8 9 ((0, None), [])
     = Some (8, ((1, None), [Call_FieldSizeOf 9]))
   \<and> Java_java_lang_Runtime_sizeOf0 (traced probe_vm) 7 8 NULL ((0, None), [])
     = Some (0, ((1, Some InvalidHandle), [Call_SizeOf NULL]))
   \<and> ExceptionOccurred (traced probe_vm) ((1, Some InvalidHandle), [Call_SizeOf NULL])
     = Some InvalidHandle
   \<and> Java_java_lang_Runtime_gc (traced stalling_vm) 7 8 ((0, None), []) = None"
  using bridge_invokes_one_service_once [of probe_vm 7 8 "(0, None)" "[]" 11 5 9]
    bridge_invokes_one_service_once [of probe_vm 7 8 "(0, None)" "[]" NULL 5 9]
    bridge_invokes_one_service_once [of stalling_vm 7 8 "(0, None)" "[]" 11 5 9]
  by (simp add: probe_vm_simps stalling_vm_simps traced_simps)

text \<open>
  C4 (as the code has it). No operation checks an argument before forwarding. For every
  engine and every argument value, null handles included, a call does exactly what its
  engine service does with the very arguments the call was given: where the service
  does not return, the call does not return; where the service returns, the call
  returns the service's result and state, having made that one invocation and no
  other. So no argument value is refused, replaced or answered by the bridge itself.
\<close>

theorem every_argument_is_forwarded_unchecked:
  "Java_java_lang_Runtime_freeMemory (traced vm) env this (s, tr) =
     (case JVM_FreeMemory vm s of
        None \<Rightarrow> None
      | Some (r, s') \<Rightarrow> Some (r, (s', tr @ [Call_FreeMemory])))
   \<and> Java_java_lang_Runtime_totalMemory (traced vm) env this (s, tr) =
     (case JVM_TotalMemory vm s of
        None \<Rightarrow> None
      | Some (r, s') \<Rightarrow> Some (r, (s', tr @ [Call_TotalMemory])))
   \<and> Java_java_lang_Runtime_maxMemory (traced vm) env this (s, tr) =
     (case JVM_MaxMemory vm s of
        None \<Rightarrow> None
      | Some (r, s') \<Rightarrow> Some (r, (s', tr @ [Call_MaxMemory])))
   \<and> Java_java_lang_Runtime_gc (traced vm) env this (s, tr) =
     (case JVM_GC vm s of
        None \<Rightarrow> None
      | Some (r, s') \<Rightarrow> Some ((), (s', tr @ [Call_GC])))
   \<and> Java_java_lang_Runtime_availableProcessors (traced vm) env this (s, tr) =
     (case JVM_ActiveProcessorCount vm s of
        None \<Rightarrow> None
      | Some (r, s') \<Rightarrow> Some (r, (s', tr @ [Call_ActiveProcessorCount])))
   \<and> Java_java_lang_Runtime_sizeOf0 (traced vm) env this obj (s, tr) =
     (case JVM_SizeOf vm obj s of
        None \<Rightarrow> None
      | Some (r, s') \<Rightarrow> Some (r, (s', tr @ [Call_SizeOf obj])))
   \<and> Java_java_lang_Runtime_getReferences0 (traced vm) env this obj ref_buf (s, tr) =
     (case JVM_GetReferencedObjects vm env obj ref_buf s of
        None \<Rightarrow> None
      | Some (r, s') \<Rightarrow> Some (r, (s', tr @ [Call_GetReferencedObjects env obj ref_buf])))
   \<and> Java_java_lang_Runtime_addressOf0 (traced vm) env this field (s, tr) =
     (case JVM_AddressOf vm field s of
        None \<Rightarrow> None
      | Some (r, s') \<Rightarrow> Some (r, (s', tr @ [Call_AddressOf field])))
   \<and> Java_java_lang_Runtime_fieldOffsetOf0 (traced vm) env this field (s, tr) =
     (case JVM_FieldOffsetOf vm field s of
        None \<Rightarrow> None
      | Some (r, s') \<Rightarrow> Some (r, (s', tr @ [Call_FieldOffsetOf field])))
   \<and> Java_java_lang_Runtime_fieldSizeOf0 (traced vm) env this field (s, tr) =
     (case JVM_FieldSizeOf vm field s of
        None \<Rightarrow> None
      | Some (r, s') \<Rightarrow> Some (r, (s', tr @ [Call_FieldSizeOf field])))"
  by (simp add: entry_point_defs traced_simps logged_def split: option.splits)

text \<open>
  The five operations that take a handle, each run with a live handle and with the
  null handle on the probing engine, and on the engine whose collector never comes
  back \<open>gc\<close>, which then does not come back either.
\<close>

theorem every_argument_is_forwarded_unchecked_witness:
  "Java_java_lang_Runtime_sizeOf0 (traced probe_vm) 7 8 11 ((0, None), [Call_GC])
     = Some (16, ((1, None), [Call_GC, Call_SizeOf 11]))
   \<and> Java_java_lang_Runtime_getReferences0 (traced probe_vm) 7 8 11 5 ((0, None), [Call_GC])
     = Some (3, ((1, None), [Call_GC, Call_GetReferencedObjects 7 11 5]))
   \<and> Java_java_lang_Runtime_addressOf0 (traced probe_vm) 7 8 9 ((0, None), [Call_GC])
     = Some (4294967296, ((1, None), [Call_GC, Call_AddressOf 9]))
   \<and> Java_java_lang_Runtime_fieldOffsetOf0 (traced probe_vm) 7 8 9 ((0, None), [Call_GC])
     = Some (12, ((1, None), [Call_GC, Call_FieldOffsetOf 9]))
   \<and> Java_java_lang_Runtime_fieldSizeOf0 (traced probe_vm) 7 8 9 ((0, None), [Call_GC])
     = Some (8, ((1, None), [Call_GC, Call_FieldSizeOf 9]))
   \<and> Java_java_lang_Runtime_sizeOf0 (traced probe_vm) 7 8 NULL ((0, None), [Call_GC])
     = Some (0, ((1, Some InvalidHandle), [Call_GC, Call_SizeOf NULL]))
   \<and> Java_java_lang_Runtime_getReferences0 (traced probe_vm) 7 8 NULL 5 ((0, None), [Call_GC])
     = Some (0, ((1, Some InvalidHandle), [Call_GC, Call_GetReferencedObjects 7 NULL 5]))
   \<and> Java_java_lang_Runtime_addressOf0 (traced probe_vm) 7 8 NULL ((0, None), [Call_GC])
     = Some (0, ((1, Some InvalidHandle), [Call_GC, Call_AddressOf NULL]))
   \<and> Java_java_lang_Runtime_fieldOffsetOf0 (traced probe_vm) 7 8 NULL ((0, None), [Call_GC])
     = Some (0, ((1, Some InvalidHandle), [Call_GC, Call_FieldOffsetOf NULL]))
   \<and> Java_java_lang_Runtime_fieldSizeOf0 (traced probe_vm) 7 8 NULL ((0, None), [Call_GC])
     = Some (0, ((1, Some InvalidHandle), [Call_GC, Call_FieldSizeOf NULL]))
   \<and> Java_java_lang_Runtime_gc (traced stalling_vm) 7 8 ((0, None), [Call_GC]) = None"
  using every_argument_is_forwarded_unchecked
      [of probe_vm 7 8 "(0, None)" "[Call_GC]" 11 5 9]
    every_argument_is_forwarded_unchecked
      [of probe_vm 7 8 "(0, None)" "[Call_GC]" NULL 5 NULL]
    every_argument_is_forwarded_unchecked
      [of stalling_vm 7 8 "(0, None)" "[Call_GC]" 11 5 9]
  by (simp add: probe_vm_simps stalling_vm_simps)

text \<open>
  C4 as the specification states it, refuted: the five operations that take a handle
  are each called with the null handle, the one argument shape the specification
  names as invalid. No check in the bridge stops the call: each passes the null handle
  on, and it is the engine that is asked (the log) and the engine that refuses (the
  failure it leaves pending).
\<close>

theorem null_handle_is_forwarded_unchecked:
  "Java_java_lang_Runtime_sizeOf0 (traced probe_vm) 7 8 NULL ((0, None), [])
     = Some (0, ((1, Some InvalidHandle), [Call_SizeOf NULL]))
   \<and> Java_java_lang_Runtime_getReferences0 (traced probe_vm) 7 8 NULL NULL ((0, None), [])
     = Some (0, ((1, Some InvalidHandle), [Call_GetReferencedObjects 7 NULL NULL]))
   \<and> Java_java_lang_Runtime_addressOf0 (traced probe_vm) 7 8 NULL ((0, None), [])
     = Some (0, ((1, Some InvalidHandle), [Call_AddressOf NULL]))
   \<and> Java_java_lang_Runtime_fieldOffsetOf0 (traced probe_vm) 7 8 NULL ((0, None), [])
     = Some (0, ((1, Some InvalidHandle), [Call_FieldOffsetOf NULL]))
   \<and> Java_java_lang_Runtime_fieldSizeOf0 (traced probe_vm) 7 8 NULL ((0, None), [])
     = Some (0, ((1, Some InvalidHandle), [Call_FieldSizeOf NULL]))"
  by (simp add: entry_point_defs traced_simps logged_def probe_vm_simps)

text \<open>
  C5. The bridge has no state of its own. What a call hands back (its result and the
  state it leaves) is fixed by its arguments and by the response of the engine service
  it invokes: two calls of one operation whose service responds alike hand back the
  same, whichever engines they run on, whatever states those engines are in, whatever
  was called before, and whatever \<open>env\<close> and \<open>this\<close> are (\<open>getReferences0\<close> passes \<open>env\<close>
  on, so there it is one of the arguments).
\<close>

theorem outcome_determined_by_engine_response:
  "(JVM_FreeMemory vm1 s1 = JVM_FreeMemory vm2 s2 \<longrightarrow>
      Java_java_lang_Runtime_freeMemory vm1 env1 this1 s1
        = Java_java_lang_Runtime_freeMemory vm2 env2 this2 s2)
   \<and> (JVM_TotalMemory vm1 s1 = JVM_TotalMemory vm2 s2 \<longrightarrow>
      Java_java_lang_Runtime_totalMemory vm1 env1 this1 s1
        = Java_java_lang_Runtime_totalMemory vm2 env2 this2 s2)
   \<and> (JVM_MaxMemory vm1 s1 = JVM_MaxMemory vm2 s2 \<longrightarrow>
      Java_java_lang_Runtime_maxMemory vm1 env1 this1 s1
        = Java_java_lang_Runtime_maxMemory vm2 env2 this2 s2)
   \<and> (JVM_GC vm1 s1 = JVM_GC vm2 s2 \<longrightarrow>
      Java_java_lang_Runtime_gc vm1 env1 this1 s1
        = Java_java_lang_Runtime_gc vm2 env2 this2 s2)
   \<and> (JVM_ActiveProcessorCount vm1 s1 = JVM_ActiveProcessorCount vm2 s2 \<longrightarrow>
      Java_java_lang_Runtime_availableProcessors vm1 env1 this1 s1
        = Java_java_lang_Runtime_availableProcessors vm2 env2 this2 s2)
   \<and> (JVM_SizeOf vm1 obj s1 = JVM_SizeOf vm2 obj s2 \<longrightarrow>
      Java_java_lang_Runtime_sizeOf0 vm1 env1 this1 obj s1
        = Java_java_lang_Runtime_sizeOf0 vm2 env2 this2 obj s2)
   \<and> (JVM_GetReferencedObjects vm1 env1 obj ref_buf s1
        = JVM_GetReferencedObjects vm2 env1 obj ref_buf s2 \<longrightarrow>
      Java_java_lang_Runtime_getReferences0 vm1 env1 this1 obj ref_buf s1
        = Java_java_lang_Runtime_getReferences0 vm2 env1 this2 obj ref_buf s2)
   \<and> (JVM_AddressOf vm1 field s1 = JVM_AddressOf vm2 field s2 \<longrightarrow>
      Java_java_lang_Runtime_addressOf0 vm1 env1 this1 field s1
        = Java_java_lang_Runtime_addressOf0 vm2 env2 this2 field s2)
   \<and> (JVM_FieldOffsetOf vm1 field s1 = JVM_FieldOffsetOf vm2 field s2 \<longrightarrow>
      Java_java_lang_Runtime_fieldOffsetOf0 vm1 env1 this1 field s1
        = Java_java_lang_Runtime_fieldOffsetOf0 vm2 env2 this2 field s2)
   \<and> (JVM_FieldSizeOf vm1 field s1 = JVM_FieldSizeOf vm2 field s2 \<longrightarrow>
      Java_java_lang_Runtime_fieldSizeOf0 vm1 env1 this1 field s1
        = Java_java_lang_Runtime_fieldSizeOf0 vm2 env2 this2 field s2)"
  by (simp add: entry_point_defs)

text \<open>
  Two engines that differ (one collects, the other's collector never comes back),
  asked through different \<open>env\<close> and \<open>this\<close>: the nine queries, to which both engines
  respond alike, hand back the same on both; \<open>gc\<close>, where they differ, is run twice on
  the first.
\<close>

theorem outcome_determined_by_engine_response_witness:
  "Java_java_lang_Runtime_freeMemory probe_vm 7 8 (0, None)
     = Java_java_lang_Runtime_freeMemory stalling_vm 17 18 (0, None)
   \<and> Java_java_lang_Runtime_totalMemory probe_vm 7 8 (0, None)
     = Java_java_lang_Runtime_totalMemory stalling_vm 17 18 (0, None)
   \<and> Java_java_lang_Runtime_maxMemory probe_vm 7 8 (0, None)
     = Java_java_lang_Runtime_maxMemory stalling_vm 17 18 (0, None)
   \<and> Java_java_lang_Runtime_gc probe_vm 7 8 (0, None)
     = Java_java_lang_Runtime_gc probe_vm 17 18 (0, None)
   \<and> Java_java_lang_Runtime_availableProcessors probe_vm 7 8 (0, None)
     = Java_java_lang_Runtime_availableProcessors stalling_vm 17 18 (0, None)
   \<and> Java_java_lang_Runtime_sizeOf0 probe_vm 7 8 11 (0, None)
     = Java_java_lang_Runtime_sizeOf0 stalling_vm 17 18 11 (0, None)
   \<and> Java_java_lang_Runtime_getReferences0 probe_vm 7 8 11 5 (0, None)
     = Java_java_lang_Runtime_getReferences0 stalling_vm 7 18 11 5 (0, None)
   \<and> Java_java_lang_Runtime_addressOf0 probe_vm 7 8 9 (0, None)
     = Java_java_lang_Runtime_addressOf0 stalling_vm 17 18 9 (0, None)
   \<and> Java_java_lang_Runtime_fieldOffsetOf0 probe_vm 7 8 9 (0, None)
     = Java_java_lang_Runtime_fieldOffsetOf0 stalling_vm 17 18 9 (0, None)
   \<and> Java_java_lang_Runtime_fieldSizeOf0 probe_vm 7 8 9 (0, None)
     = Java_java_lang_Runtime_fieldSizeOf0 stalling_vm 17 18 9 (0, None)"
  using outcome_determined_by_engine_response
      [of probe_vm "(0, None)" stalling_vm "(0, None)" 7 8 17 18 11 5 9]
    outcome_determined_by_engine_response
      [of probe_vm "(0, None)" probe_vm "(0, None)" 7 8 17 18 11 5 9]
  by (simp add: probe_vm_simps stalling_vm_simps)

text \<open>
  C7. Under the engine's contract that the processor-count service returns a positive
  integer (in every state of the engine), every call of \<open>availableProcessors\<close> returns,
  and returns an integer that is at least 1.
\<close>

theorem availableProcessors_at_least_one:
  assumes contract: "\<forall>s. \<exists>n s'. JVM_ActiveProcessorCount vm s = Some (n, s') \<and> 0 < sint n"
  shows "\<exists>n s'. Java_java_lang_Runtime_availableProcessors vm env this s = Some (n, s')
           \<and> 1 \<le> sint n"
proof -
  from contract obtain n s' where "JVM_ActiveProcessorCount vm s = Some (n, s')" "0 < sint n"
    by blast
  then show ?thesis
    by (auto simp: Java_java_lang_Runtime_availableProcessors_def)
qed

theorem availableProcessors_at_least_one_witness:
  "(\<forall>s. \<exists>n s'. JVM_ActiveProcessorCount probe_vm s = Some (n, s') \<and> 0 < sint n)
   \<and> (\<exists>n s'. Java_java_lang_Runtime_availableProcessors probe_vm 7 8 (0, None) = Some (n, s')
         \<and> 1 \<le> sint n)"
proof -
  have c: "\<forall>s. \<exists>n s'. JVM_ActiveProcessorCount probe_vm s = Some (n, s') \<and> 0 < sint n"
    by (simp add: probe_vm_simps)
  from c availableProcessors_at_least_one [OF c, of 7 8 "(0, None)"] show ?thesis by blast
qed

text \<open>
  C8. Under normal engine operation (the collection request returns, and the engine
  has signalled no failure when it does), a call of \<open>gc\<close> returns control to its
  caller, with no result and no failure pending. It promises nothing about a
  collection: the state after the call is the state the engine chose to leave, and on
  an engine that takes the request and collects nothing the call returns all the same,
  with the engine state untouched.
\<close>

theorem gc_returns_control:
  assumes returns: "JVM_GC vm s = Some (u, s')"
    and quiet: "ExceptionOccurred vm s' = None"
  shows "(\<exists>st. Java_java_lang_Runtime_gc vm env this s = Some ((), st)
            \<and> ExceptionOccurred vm st = None
            \<and> st = s')
       \<and> Java_java_lang_Runtime_gc probe_vm env this (n, None) = Some ((), (n, None))"
  using returns quiet by (simp add: Java_java_lang_Runtime_gc_def probe_vm_simps)

text \<open>The probing engine after five queries: the request returns, nothing is pending.\<close>

theorem gc_returns_control_witness:
  "JVM_GC probe_vm (5, None) = Some ((), (5, None))
   \<and> ExceptionOccurred probe_vm (5, None) = None
   \<and> Java_java_lang_Runtime_gc probe_vm 7 8 (5, None) = Some ((), (5, None))"
proof -
  have r: "JVM_GC probe_vm (5, None) = Some ((), (5, None))"
    and q: "ExceptionOccurred probe_vm (5, None) = None"
    by (simp_all add: probe_vm_simps)
  from gc_returns_control [OF r q, of 7 8 5] r q show ?thesis by simp
qed

text \<open>
  C9. Every operation but \<open>getReferences0\<close> ignores \<open>env\<close> and \<open>this\<close>: two calls that
  differ only in them make the same engine invocations (the logs agree) and hand back
  the same result and state.
\<close>

theorem env_and_receiver_unused:
  "Java_java_lang_Runtime_freeMemory (traced vm) env this st
     = Java_java_lang_Runtime_freeMemory (traced vm) env' this' st
   \<and> Java_java_lang_Runtime_totalMemory (traced vm) env this st
     = Java_java_lang_Runtime_totalMemory (traced vm) env' this' st
   \<and> Java_java_lang_Runtime_maxMemory (traced vm) env this st
     = Java_java_lang_Runtime_maxMemory (traced vm) env' this' st
   \<and> Java_java_lang_Runtime_gc (traced vm) env this st
     = Java_java_lang_Runtime_gc (traced vm) env' this' st
   \<and> Java_java_lang_Runtime_availableProcessors (traced vm) env this st
     = Java_java_lang_Runtime_availableProcessors (traced vm) env' this' st
   \<and> Java_java_lang_Runtime_sizeOf0 (traced vm) env this obj st
     = Java_java_lang_Runtime_sizeOf0 (traced vm) env' this' obj st
   \<and> Java_java_lang_Runtime_addressOf0 (traced vm) env this field st
     = Java_java_lang_Runtime_addressOf0 (traced vm) env' this' field st
   \<and> Java_java_lang_Runtime_fieldOffsetOf0 (traced vm) env this field st
     = Java_java_lang_Runtime_fieldOffsetOf0 (traced vm) env' this' field st
   \<and> Java_java_lang_Runtime_fieldSizeOf0 (traced vm) env this field st
     = Java_java_lang_Runtime_fieldSizeOf0 (traced vm) env' this' field st"
  by (simp add: entry_point_defs)

text \<open>
  The same nine entry points on the probing engine, called through two different
  \<open>env\<close> and on two different receivers.
\<close>

theorem env_and_receiver_unused_witness:
  "Java_java_lang_Runtime_freeMemory (traced probe_vm) 7 8 ((0, None), [])
     = Java_java_lang_Runtime_freeMemory (traced probe_vm) 17 18 ((0, None), [])
   \<and> Java_java_lang_Runtime_totalMemory (traced probe_vm) 7 8 ((0, None), [])
     = Java_java_lang_Runtime_totalMemory (traced probe_vm) 17 18 ((0, None), [])
   \<and> Java_java_lang_Runtime_maxMemory (traced probe_vm) 7 8 ((0, None), [])
     = Java_java_lang_Runtime_maxMemory (traced probe_vm) 17 18 ((0, None), [])
   \<and> Java_java_lang_Runtime_gc (traced probe_vm) 7 8 ((0, None), [])
     = Java_java_lang_Runtime_gc (traced probe_vm) 17 18 ((0, None), [])
   \<and> Java_java_lang_Runtime_availableProcessors (traced probe_vm) 7 8 ((0, None), [])
     = Java_java_lang_Runtime_availableProcessors (traced probe_vm) 17 18 ((0, None), [])
   \<and> Java_java_lang_Runtime_sizeOf0 (traced probe_vm) 7 8 11 ((0, None), [])
     = Java_java_lang_Runtime_sizeOf0 (traced probe_vm) 17 18 11 ((0, None), [])
   \<and> Java_java_lang_Runtime_addressOf0 (traced probe_vm) 7 8 9 ((0, None), [])
     = Java_java_lang_Runtime_addressOf0 (traced probe_vm) 17 18 9 ((0, None), [])
   \<and> Java_java_lang_Runtime_fieldOffsetOf0 (traced probe_vm) 7 8 9 ((0, None), [])
     = Java_java_lang_Runtime_fieldOffsetOf0 (traced probe_vm) 17 18 9 ((0, None), [])
   \<and> Java_java_lang_Runtime_fieldSizeOf0 (traced probe_vm) 7 8 9 ((0, None), [])
     = Java_java_lang_Runtime_fieldSizeOf0 (traced probe_vm) 17 18 9 ((0, None), [])"
  by (rule env_and_receiver_unused [of probe_vm 7 8 "((0, None), [])" 17 18 11 9])

text \<open>
  C10. \<open>getReferences0\<close> hands back the engine's count as it is, a \<^verbatim>\<open>jint\<close>: 32 bits,
  with a signed value from \<open>- 2 ^ 31\<close> up to \<open>2 ^ 31 - 1\<close>, so no larger count can reach
  the caller. The results of \<open>sizeOf0\<close>, \<open>addressOf0\<close>, \<open>fieldOffsetOf0\<close> and
  \<open>fieldSizeOf0\<close> are \<^verbatim>\<open>jlong\<close>: 64 bits.
\<close>

theorem reference_count_is_32_bit:
  "(Java_java_lang_Runtime_getReferences0 vm env this obj ref_buf s = Some (n, s')
      \<longrightarrow> JVM_GetReferencedObjects vm env obj ref_buf s = Some (n, s')
        \<and> size n = 32 \<and> - (2 ^ 31) \<le> sint n \<and> sint n < 2 ^ 31)
   \<and> (Java_java_lang_Runtime_sizeOf0 vm env this obj s = Some (a, sa) \<longrightarrow> size a = 64)
   \<and> (Java_java_lang_Runtime_addressOf0 vm env this field s = Some (b, sb) \<longrightarrow> size b = 64)
   \<and> (Java_java_lang_Runtime_fieldOffsetOf0 vm env this field s = Some (c, sc) \<longrightarrow> size c = 64)
   \<and> (Java_java_lang_Runtime_fieldSizeOf0 vm env this field s = Some (d, sd) \<longrightarrow> size d = 64)"
proof -
  have "- (2 ^ 31) \<le> sint n" "sint n < 2 ^ 31"
    using sint_ge [of n] sint_lt [of n] by simp_all
  then show ?thesis
    by (simp add: entry_point_defs word_size)
qed

text \<open>
  A count of 3 comes back in 32 bits; an address of \<open>2 ^ 32\<close>, which 32 signed bits
  cannot hold, comes back whole in 64.
\<close>

theorem reference_count_is_32_bit_witness:
  "Java_java_lang_Runtime_getReferences0 probe_vm 7 8 11 5 (0, None) = Some (3, (1, None))
   \<and> size (3 :: jint) = 32 \<and> - (2 ^ 31) \<le> sint (3 :: jint) \<and> sint (3 :: jint) < 2 ^ 31
   \<and> Java_java_lang_Runtime_sizeOf0 probe_vm 7 8 11 (0, None) = Some (16, (1, None))
   \<and> size (16 :: jlong) = 64
   \<and> Java_java_lang_Runtime_addressOf0 probe_vm 7 8 9 (0, None) = Some (4294967296, (1, None))
   \<and> size (4294967296 :: jlong) = 64
   \<and> sint (4294967296 :: jlong) = 2 ^ 32
   \<and> Java_java_lang_Runtime_fieldOffsetOf0 probe_vm 7 8 9 (0, None) = Some (12, (1, None))
   \<and> size (12 :: jlong) = 64
   \<and> Java_java_lang_Runtime_fieldSizeOf0 probe_vm 7 8 9 (0, None) = Some (8, (1, None))
   \<and> size (8 :: jlong) = 64"
  using reference_count_is_32_bit
    [of probe_vm 7 8 11 5 "(0, None)" 3 "(1, None)" 16 "(1, None)" 9 4294967296 "(1, None)"
        12 "(1, None)" 8 "(1, None)"]
  by (simp add: entry_point_defs probe_vm_simps word_size)



section \<open>Properties of the entry points on the engine of the specification\<close>

text \<open>
  C2. For an object with exactly \<open>k\<close> direct references and a caller-supplied buffer of
  capacity \<open>c\<close>, \<open>getReferencedObjects\<close> returns \<open>k\<close>, also when \<open>k\<close> exceeds \<open>c\<close>: as
  the \<^verbatim>\<open>jint\<close> \<open>of_nat k\<close>, whose signed value is \<open>k\<close> for every \<open>k\<close> a \<^verbatim>\<open>jint\<close> can
  carry. The first \<open>min k c\<close> slots of the buffer then hold the first \<open>min k c\<close>
  references found, the other slots are as they were, the capacity is unchanged and no
  failure is signalled. When \<open>k = 0\<close> the call returns 0 and leaves the buffer, and the
  whole engine state, as it was.
\<close>

theorem getReferencedObjects_count_and_buffer:
  assumes obj: "obj \<noteq> NULL" "live_objects s obj = Some info"
    and refs: "direct_references info = refs" "length refs = k"
    and buf: "ref_buf \<noteq> NULL" "reference_buffers s ref_buf = Some slots" "length slots = c"
  shows "\<exists>n s' slots'.
           Java_java_lang_Runtime_getReferences0 spec_vm env this obj ref_buf s = Some (n, s')
         \<and> n = of_nat k
         \<and> (k < 2 ^ 31 \<longrightarrow> sint n = int k)
         \<and> reference_buffers s' ref_buf = Some slots'
         \<and> length slots' = c
         \<and> take (min k c) slots' = take (min k c) refs
         \<and> drop (min k c) slots' = drop (min k c) slots
         \<and> pending_error s' = pending_error s
         \<and> (k = 0 \<longrightarrow> n = 0 \<and> s' = s)"
proof -
  let ?n = "min k c"
  let ?slots' = "take ?n refs @ drop ?n slots"
  let ?s' = "s \<lparr> reference_buffers := (reference_buffers s)(ref_buf \<mapsto> ?slots') \<rparr>"
  have run: "Java_java_lang_Runtime_getReferences0 spec_vm env this obj ref_buf s
               = Some (of_nat k, ?s')"
    using obj refs buf
    by (simp add: Java_java_lang_Runtime_getReferences0_def spec_vm_simps
          spec_GetReferencedObjects_def Let_def)
  have count: "k < 2 ^ 31 \<longrightarrow> sint (of_nat k :: jint) = int k"
    by (simp add: nat_fits_jint)
  have len: "length ?slots' = c"
    using refs(2) buf(3) by simp
  have front: "take ?n ?slots' = take ?n refs"
    using refs(2) by simp
  have rest: "drop ?n ?slots' = drop ?n slots"
    using refs(2) by simp
  have untouched: "k = 0 \<longrightarrow> (of_nat k :: jint) = 0 \<and> ?s' = s"
    using buf(2) by (auto simp: buffer_write_nothing)
  from run count len front rest untouched show ?thesis
    by (intro exI [of _ "of_nat k"] exI [of _ ?s'] exI [of _ ?slots']) simp
qed

text \<open>
  Object 11 has three references and buffer 5 two slots: the call returns 3 and the
  buffer holds the first two. Object 12 has none: the call with buffer 6 returns 0 and
  changes nothing.
\<close>

theorem getReferencedObjects_count_and_buffer_witness:
  "(11::jobject) \<noteq> NULL
   \<and> live_objects demo_state 11 = Some \<lparr> shallow_size = 24, direct_references = [12, 13, 12] \<rparr>
   \<and> length [12, 13, 12 :: jobject] = 3
   \<and> (5::jobjectArray) \<noteq> NULL
   \<and> reference_buffers demo_state 5 = Some [7, 7]
   \<and> length [7, 7 :: jobject] = 2
   \<and> (\<exists>n s'. Java_java_lang_Runtime_getReferences0 spec_vm 17 18 11 5 demo_state = Some (n, s')
          \<and> sint n = 3
          \<and> reference_buffers s' 5 = Some [12, 13]
          \<and> pending_error s' = None)
   \<and> (12::jobject) \<noteq> NULL
   \<and> live_objects demo_state 12 = Some \<lparr> shallow_size = 16, direct_references = [] \<rparr>
   \<and> (6::jobjectArray) \<noteq> NULL
   \<and> reference_buffers demo_state 6 = Some [7, 7, 7, 7]
   \<and> Java_java_lang_Runtime_getReferences0 spec_vm 17 18 12 6 demo_state = Some (0, demo_state)"
proof -
  have o1: "(11::jobject) \<noteq> NULL"
    "live_objects demo_state 11 = Some \<lparr> shallow_size = 24, direct_references = [12, 13, 12] \<rparr>"
    and r1: "direct_references \<lparr> shallow_size = 24, direct_references = [12, 13, 12] \<rparr>
               = [12, 13, 12]"
    "length [12, 13, 12 :: jobject] = 3"
    and b1: "(5::jobjectArray) \<noteq> NULL" "reference_buffers demo_state 5 = Some [7, 7]"
    "length [7, 7 :: jobject] = 2"
    by (simp_all add: demo_state_simps)
  have o2: "(12::jobject) \<noteq> NULL"
    "live_objects demo_state 12 = Some \<lparr> shallow_size = 16, direct_references = [] \<rparr>"
    and r2: "direct_references \<lparr> shallow_size = 16, direct_references = [] \<rparr> = []"
    "length ([] :: jobject list) = 0"
    and b2: "(6::jobjectArray) \<noteq> NULL" "reference_buffers demo_state 6 = Some [7, 7, 7, 7]"
    "length [7, 7, 7, 7 :: jobject] = 4"
    by (simp_all add: demo_state_simps)
  from getReferencedObjects_count_and_buffer [OF o1 r1 b1, of 17 18]
  obtain n s' slots' where
    run: "Java_java_lang_Runtime_getReferences0 spec_vm 17 18 11 5 demo_state = Some (n, s')"
    and count: "(3::nat) < 2 ^ 31 \<longrightarrow> sint n = int 3"
    and slots: "reference_buffers s' 5 = Some slots'" "length slots' = 2"
      "take (min 3 2) slots' = take (min 3 2) [12, 13, 12]"
    and quiet: "pending_error s' = pending_error demo_state"
    by blast
  from slots have "slots' = [12, 13]" by simp
  with run count slots(1) quiet
  have first: "\<exists>n s'. Java_java_lang_Runtime_getReferences0 spec_vm 17 18 11 5 demo_state
                         = Some (n, s')
          \<and> sint n = 3 \<and> reference_buffers s' 5 = Some [12, 13] \<and> pending_error s' = None"
    by (simp add: demo_state_simps)
  from getReferencedObjects_count_and_buffer [OF o2 r2 b2, of 17 18]
  have second: "Java_java_lang_Runtime_getReferences0 spec_vm 17 18 12 6 demo_state
                  = Some (0, demo_state)"
    by auto
  from o1 r1(2) b1 o2 b2(1,2) first second show ?thesis by blast
qed

text \<open>
  C3. Called with an object handle, or a field-descriptor handle, that is null or not
  live, each of the five introspection operations fails with \<open>InvalidHandle\<close> and does
  nothing else: the call returns, \<open>InvalidHandle\<close> is the failure the caller finds
  pending, and the engine state is otherwise the one before the call. For
  \<open>getReferencedObjects\<close> that holds whatever the buffer handle is, and every reference
  buffer is as it was.
\<close>

theorem invalid_handle_fails_without_side_effect:
  assumes obj: "obj = NULL \<or> live_objects s obj = None"
    and field: "field = NULL \<or> live_fields s field = None"
  shows "failed_with InvalidHandle s (Java_java_lang_Runtime_sizeOf0 spec_vm env this obj s)
       \<and> failed_with InvalidHandle s
           (Java_java_lang_Runtime_getReferences0 spec_vm env this obj ref_buf s)
       \<and> failed_with InvalidHandle s (Java_java_lang_Runtime_addressOf0 spec_vm env this field s)
       \<and> failed_with InvalidHandle s
           (Java_java_lang_Runtime_fieldOffsetOf0 spec_vm env this field s)
       \<and> failed_with InvalidHandle s
           (Java_java_lang_Runtime_fieldSizeOf0 spec_vm env this field s)
       \<and> (\<exists>n s'. Java_java_lang_Runtime_getReferences0 spec_vm env this obj ref_buf s = Some (n, s')
            \<and> ExceptionOccurred spec_vm s' = Some InvalidHandle
            \<and> reference_buffers s' = reference_buffers s)"
  using obj field
  by (auto simp: failed_with_def entry_point_defs spec_vm_simps signal_def
        spec_SizeOf_def spec_GetReferencedObjects_def spec_AddressOf_def
        spec_FieldOffsetOf_def spec_FieldSizeOf_def)

text \<open>The null object handle and the stale descriptor handle 44, on the small heap.\<close>

theorem invalid_handle_fails_without_side_effect_witness:
  "((NULL::jobject) = NULL \<or> live_objects demo_state NULL = None)
   \<and> ((44::jobject) = NULL \<or> live_fields demo_state 44 = None)
   \<and> failed_with InvalidHandle demo_state
       (Java_java_lang_Runtime_sizeOf0 spec_vm 17 18 NULL demo_state)
   \<and> failed_with InvalidHandle demo_state
       (Java_java_lang_Runtime_getReferences0 spec_vm 17 18 NULL 5 demo_state)
   \<and> failed_with InvalidHandle demo_state
       (Java_java_lang_Runtime_addressOf0 spec_vm 17 18 44 demo_state)
   \<and> failed_with InvalidHandle demo_state
       (Java_java_lang_Runtime_fieldOffsetOf0 spec_vm 17 18 44 demo_state)
   \<and> failed_with InvalidHandle demo_state
       (Java_java_lang_Runtime_fieldSizeOf0 spec_vm 17 18 44 demo_state)
   \<and> (\<exists>n s'. Java_java_lang_Runtime_getReferences0 spec_vm 17 18 NULL 5 demo_state = Some (n, s')
         \<and> ExceptionOccurred spec_vm s' = Some InvalidHandle
         \<and> reference_buffers s' 5 = Some [7, 7])"
proof -
  have o: "(NULL::jobject) = NULL \<or> live_objects demo_state NULL = None"
    and f: "(44::jobject) = NULL \<or> live_fields demo_state 44 = None"
    by (simp_all add: demo_state_simps)
  note fails = invalid_handle_fails_without_side_effect [OF o f, of 17 18 5]
  from fails obtain n s' where
    "Java_java_lang_Runtime_getReferences0 spec_vm 17 18 NULL 5 demo_state = Some (n, s')"
    "ExceptionOccurred spec_vm s' = Some InvalidHandle"
    "reference_buffers s' = reference_buffers demo_state"
    by blast
  then have "\<exists>n s'. Java_java_lang_Runtime_getReferences0 spec_vm 17 18 NULL 5 demo_state
                       = Some (n, s')
         \<and> ExceptionOccurred spec_vm s' = Some InvalidHandle
         \<and> reference_buffers s' 5 = Some [7, 7]"
    by (simp add: demo_state_simps)
  with fails o f show ?thesis by blast
qed


end
